theory Spec2Isabelle
  imports Main "HOL-Library.Word"
begin

unbundle bit_operations_syntax

section \<open>Values of the JavaScript runtime\<close>

type_synonym byte = "8 word"
type_synonym buffer = "byte list"

text \<open>
  The values that cross the interface of \<^verbatim>\<open>lib/connection.js\<close>: option values, publish
  bodies, arguments of methods. A \<^verbatim>\<open>Buffer\<close> is its byte sequence, an object literal is the
  list of its properties in insertion order.
\<close>

datatype js_value =
    JUndefined
  | JNull
  | JBool bool
  | JNumber int
  | JString string
  | JBuffer buffer
  | JObject "(string \<times> js_value) list"

text \<open>JavaScript truthiness, as \<^verbatim>\<open>if (v)\<close>, \<^verbatim>\<open>!v\<close> and \<^verbatim>\<open>v || w\<close> read a value.\<close>

fun truthy :: "js_value \<Rightarrow> bool" where
  "truthy JUndefined = False"
| "truthy JNull = False"
| "truthy (JBool b) = b"
| "truthy (JNumber n) = (n \<noteq> 0)"
| "truthy (JString s) = (s \<noteq> [])"
| "truthy (JBuffer b) = True"
| "truthy (JObject kvs) = True"

text \<open>The operator \<^verbatim>\<open>a || b\<close>: the left operand when it is truthy, else the right one.\<close>

definition js_or :: "js_value \<Rightarrow> js_value \<Rightarrow> js_value" where
  "js_or a b = (if truthy a then a else b)"




datatype error =
    HeartbeatTimeout int
      \<comment> \<open>\<^verbatim>\<open>'no heartbeat or data in last ' + gracePeriod + ' seconds'\<close>\<close>
  | BadServerVersion
      \<comment> \<open>\<^verbatim>\<open>"Bad server version"\<close>\<close>
  | AuthenticationFailure
      \<comment> \<open>\<^verbatim>\<open>'Connection ended: possibly due to an authentication failure.'\<close>\<close>
  | NoChannelsAvailable
      \<comment> \<open>\<^verbatim>\<open>"No valid Channel Id values available"\<close>\<close>
  | TypeError
      \<comment> \<open>raised by the runtime, as \<^verbatim>\<open>new Buffer(undefined, 'utf8')\<close>\<close>
  | ConnectionClosed int string
      \<comment> \<open>\<^verbatim>\<open>new Error(args.replyText)\<close> with \<^verbatim>\<open>code = args.replyCode\<close>\<close>
  | UncaughtMethod string
      \<comment> \<open>\<^verbatim>\<open>"Uncaught method '" + method.name + "' with args ..."\<close>\<close>
  | ParserException string
      \<comment> \<open>whatever \<^verbatim>\<open>parser.execute\<close> throws\<close>

section \<open>Options\<close>

text \<open>
  \<^verbatim>\<open>this.options\<close>. \<^verbatim>\<open>heartbeat\<close> is only read through its truthiness
  (\<^verbatim>\<open>if (this.options.heartbeat)\<close>, \<^verbatim>\<open>this.options.heartbeat || 0\<close>) and,
  when truthy, as a number: \<open>0\<close> stands for every falsy value (absent, \<^verbatim>\<open>false\<close>, 0).
\<close>

record conn_options =
  login :: string
  password :: string
  authMechanism :: string
  response :: js_value
  vhost :: string
  heartbeat :: int
  heartbeatForceReconnect :: bool
  noDelay :: js_value
  clientProperties :: js_value

text \<open>\<^verbatim>\<open>this.implOptions\<close>.\<close>

record impl_options =
  reconnect :: bool
  reconnectBackoffStrategy :: string
  reconnectExponentialLimit :: int
  reconnectBackoffTime :: int

text \<open>
  \<^verbatim>\<open>defaultOptions\<close> and \<^verbatim>\<open>defaultImplOptions\<close>, on the options of this model; an
  option the defaults leave out is absent. The version strings of
  \<^verbatim>\<open>defaultClientProperties\<close> come from the package and the runtime.
\<close>

definition defaultOptions :: "js_value \<Rightarrow> conn_options" where
  "defaultOptions defaultClientProperties =
     \<lparr> login = ''guest'', password = ''guest'', authMechanism = ''AMQPLAIN'',
       response = JUndefined, vhost = ''/'', heartbeat = 0, heartbeatForceReconnect = False,
       noDelay = JUndefined, clientProperties = defaultClientProperties \<rparr>"

definition defaultImplOptions :: impl_options where
  "defaultImplOptions =
     \<lparr> reconnect = True, reconnectBackoffStrategy = ''linear'',
       reconnectExponentialLimit = 120000, reconnectBackoffTime = 1000 \<rparr>"

section \<open>SASL response\<close>

text \<open>
  \<^verbatim>\<open>Connection.prototype._saslResponse\<close>. The string \<^verbatim>\<open>"\0"\<close> is the one character
  with code 0.
\<close>

definition saslResponse :: "conn_options \<Rightarrow> js_value" where
  "saslResponse opts =
     (if authMechanism opts = ''AMQPLAIN'' then
        JObject [(''LOGIN'', JString (login opts)), (''PASSWORD'', JString (password opts))]
      else if authMechanism opts = ''PLAIN'' then
        JString ([CHR 0x00] @ login opts @ [CHR 0x00] @ password opts)
      else if authMechanism opts = ''EXTERNAL'' then
        JString [CHR 0x00]
      else if authMechanism opts = ''ANONYMOUS'' then
        JString [CHR 0x00]
      else
        response opts)"

section \<open>Body encoding\<close>

text \<open>
  What \<^verbatim>\<open>lib/connection.js\<close> takes from the runtime and from the modules
  \<^verbatim>\<open>lib/serializer.js\<close> and \<^verbatim>\<open>lib/definitions.js\<close>, which are not among the sources:
  the UTF-8 encoder behind \<^verbatim>\<open>new Buffer(s, 'utf8')\<close>; \<^verbatim>\<open>JSON.stringify\<close>, whose result
  is \<^verbatim>\<open>undefined\<close> (\<open>None\<close>) for a value with no JSON text; the class and method index
  of a method and \<^verbatim>\<open>serializer.serializeFields\<close> on its field list; the field names of
  the Basic class (\<^verbatim>\<open>classes[60].fields\<close>) and \<^verbatim>\<open>serializer.serializeFields\<close> on them.
\<close>

datatype amqp_method =
    connectionStart | connectionStartOk | connectionTune | connectionTuneOk
  | connectionOpen | connectionOpenOk | connectionClose | connectionCloseOk
  | connectionBlocked | connectionUnblocked | otherMethod string

record runtime =
  utf8 :: "string \<Rightarrow> buffer"
  JSON_stringify :: "js_value \<Rightarrow> string option"
  classIndex :: "amqp_method \<Rightarrow> int"
  methodIndex :: "amqp_method \<Rightarrow> int"
  serializeFields :: "amqp_method \<Rightarrow> (string \<times> js_value) list \<Rightarrow> buffer"
  basicFields :: "string list"
  serializeProperties :: "(string \<times> js_value) list \<Rightarrow> buffer"



section \<open>Module variables, socket and connection\<close>

text \<open>
  The two variables of the module, \<^verbatim>\<open>var maxFrameBuffer = 131072\<close> and
  \<^verbatim>\<open>var channelMax = 65535\<close>. They are not properties of a connection: every function
  below that reads or writes them takes them as a state of its own.
\<close>

record module_vars =
  maxFrameBuffer :: nat
  channelMax :: nat

definition initial_module_vars :: module_vars where
  "initial_module_vars = \<lparr> maxFrameBuffer = 131072, channelMax = 65535 \<rparr>"

text \<open>
  The transport, as far as the connection uses it: the flags \<^verbatim>\<open>readable\<close> and
  \<^verbatim>\<open>writable\<close> it reads, and a record of the calls it makes (\<^verbatim>\<open>end\<close>, \<^verbatim>\<open>destroy\<close>,
  \<^verbatim>\<open>setNoDelay\<close>, and the buffers passed to \<^verbatim>\<open>write\<close>, in order).
\<close>

record socket_state =
  readable :: bool
  writable :: bool
  ended :: bool
  destroyed :: bool
  destroyedWith :: "error option"
  tcpNoDelay :: bool
  written :: "buffer list"

text \<open>
  An entry of \<^verbatim>\<open>this.channels\<close>: the connection itself at key 0, or an Exchange or a
  Queue, of which the connection reads and writes the property \<^verbatim>\<open>state\<close>.
\<close>

datatype handler = Self | Handler string

datatype parser_state = Parser "nat option"
  \<comment> \<open>an \<^verbatim>\<open>AMQPParser\<close>, with the limit last given to \<^verbatim>\<open>setMaxFrameBuffer\<close>\<close>

datatype event =
    ErrorEvent error
  | ReadyEvent
  | BlockedEvent
  | UnblockedEvent
  | ReadyCallbackCall

text \<open>
  A connection from its first \<^verbatim>\<open>connect()\<close> on. The fields are the properties of
  \<^verbatim>\<open>this\<close>, and with them:
  \<^item> \<open>backoffTime\<close>, the variable of \<^verbatim>\<open>addAllListeners\<close> that its error and ready
    listeners share (\<open>None\<close> is \<^verbatim>\<open>null\<close>), and \<open>backoffAttached\<close>, whether the error
    listener \<^verbatim>\<open>backoff\<close> is still attached;
  \<^item> \<open>inboundHeartbeatTimer\<close> and \<open>outboundHeartbeatTimer\<close>: \<open>None\<close> is \<^verbatim>\<open>null\<close>, an
    armed inbound timer holds the \<^verbatim>\<open>gracePeriod\<close> (seconds) its callback has captured
    and fires after \<^verbatim>\<open>gracePeriod * 1000\<close> ms, an armed outbound timer holds its delay in ms;
  \<^item> \<open>reconnectTimers\<close>: the delays (ms) of the reconnection timers the error listener
    has set, in order;
  \<^item> \<open>emitted\<close>: the events the connection has emitted itself, in order;
  \<^item> \<open>sendBufferLength\<close>: the length of \<^verbatim>\<open>this._sendBuffer\<close>;
  \<^item> \<open>channels\<close>: \<open>None\<close> until the first connect event (\<^verbatim>\<open>undefined\<close>);
  \<^item> \<open>readyEmitted\<close>: \<open>False\<close> also stands for \<^verbatim>\<open>undefined\<close>, which
    \<^verbatim>\<open>!this.readyEmitted\<close> reads alike.
\<close>

record connection =
  options :: conn_options
  implOptions :: impl_options
  socket :: socket_state
  parser :: "parser_state option"
  channels :: "(nat \<rightharpoonup> handler) option"
  channelCounter :: nat
  connectionAttemptScheduled :: bool
  readyEmitted :: bool
  readyCallback :: bool
  backoffTime :: "int option"
  backoffAttached :: bool
  inboundHeartbeatTimer :: "int option"
  outboundHeartbeatTimer :: "int option"
  reconnectTimers :: "int list"
  emitted :: "event list"
  serverProperties :: js_value
  sendBufferLength :: nat
  blocked :: bool
  blockedReason :: "string option"

definition socket_end :: "connection \<Rightarrow> connection" where
  "socket_end st = st\<lparr>socket := (socket st)\<lparr>ended := True\<rparr>\<rparr>"

definition socket_destroy :: "error option \<Rightarrow> connection \<Rightarrow> connection" where
  "socket_destroy e st = st\<lparr>socket := (socket st)\<lparr>destroyed := True, destroyedWith := e\<rparr>\<rparr>"

text \<open>\<^verbatim>\<open>this.write(b)\<close>, which \<^verbatim>\<open>_createSocket\<close> forwards to \<^verbatim>\<open>socket.write\<close>.\<close>

definition socket_write :: "buffer \<Rightarrow> connection \<Rightarrow> connection" where
  "socket_write b st = st\<lparr>socket := (socket st)\<lparr>written := written (socket st) @ [b]\<rparr>\<rparr>"

section \<open>Heartbeat timers\<close>

text \<open>\<^verbatim>\<open>Connection.prototype._inboundHeartbeatTimerReset\<close>.\<close>

definition inboundHeartbeatTimerReset :: "connection \<Rightarrow> connection" where
  "inboundHeartbeatTimerReset st =
     (let st1 = (if inboundHeartbeatTimer st \<noteq> None then st\<lparr>inboundHeartbeatTimer := None\<rparr> else st)
      in if heartbeat (options st1) \<noteq> 0
         then (let gracePeriod = 2 * heartbeat (options st1)
               in st1\<lparr>inboundHeartbeatTimer := Some gracePeriod\<rparr>)
         else st1)"

text \<open>\<^verbatim>\<open>Connection.prototype._outboundHeartbeatTimerReset\<close>.\<close>

definition outboundHeartbeatTimerReset :: "connection \<Rightarrow> connection" where
  "outboundHeartbeatTimerReset st =
     (let st1 = (if outboundHeartbeatTimer st \<noteq> None then st\<lparr>outboundHeartbeatTimer := None\<rparr> else st)
      in if writable (socket st1) \<and> heartbeat (options st1) \<noteq> 0
         then st1\<lparr>outboundHeartbeatTimer := Some (1000 * heartbeat (options st1))\<rparr>
         else st1)"

section \<open>Listeners\<close>

text \<open>
  The error listener \<^verbatim>\<open>backoff\<close> of \<^verbatim>\<open>addAllListeners\<close>. The loop over
  \<^verbatim>\<open>self.channels\<close> marks every channel but \<^verbatim>\<open>'0'\<close> closed; the marks on the consumers
  of \<^verbatim>\<open>self.queues\<close> are on objects of \<^verbatim>\<open>lib/queue.js\<close> and have no part here.
  \<^verbatim>\<open>setTimeout(..., backoffTime)\<close> is recorded in \<open>reconnectTimers\<close>.
\<close>

definition close_channels :: "(nat \<rightharpoonup> handler) \<Rightarrow> (nat \<rightharpoonup> handler)" where
  "close_channels chs =
     (\<lambda>channel. if channel \<noteq> 0
        then (case chs channel of Some (Handler s) \<Rightarrow> Some (Handler ''closed'') | other \<Rightarrow> other)
        else chs channel)"

definition backoff :: "connection \<Rightarrow> connection" where
  "backoff st =
     (let st1 = st\<lparr>inboundHeartbeatTimer := None, outboundHeartbeatTimer := None\<rparr>
      in if \<not> connectionAttemptScheduled st1 then
           (let st2 = socket_end (st1\<lparr>connectionAttemptScheduled := True\<rparr>);
                st3 = st2\<lparr>parser := None, channels := map_option close_channels (channels st2)\<rparr>
            in if reconnect (implOptions st3) then
                 (let t = (case backoffTime st3 of
                             None \<Rightarrow> reconnectBackoffTime (implOptions st3)
                           | Some b \<Rightarrow>
                               if reconnectBackoffStrategy (implOptions st3) = ''exponential'' then
                                 (let b2 = b * 2
                                  in if b2 > reconnectExponentialLimit (implOptions st3)
                                     then reconnectExponentialLimit (implOptions st3) else b2)
                               else if reconnectBackoffStrategy (implOptions st3) = ''linear'' then b
                               else b)
                  in st3\<lparr>backoffTime := Some t, reconnectTimers := reconnectTimers st3 @ [t]\<rparr>)
               else st3\<lparr>backoffAttached := False\<rparr>)
         else st1)"

text \<open>
  \<^verbatim>\<open>self.emit('error', e)\<close>: the event is recorded, and the listener \<^verbatim>\<open>backoff\<close> runs
  while it is attached. Listeners of the application are not part of the model.
\<close>

definition emit_error :: "error \<Rightarrow> connection \<Rightarrow> connection" where
  "emit_error e st =
     (let st1 = st\<lparr>emitted := emitted st @ [ErrorEvent e]\<rparr>
      in if backoffAttached st1 then backoff st1 else st1)"

text \<open>
  The callback of the inbound heartbeat timer, for the \<^verbatim>\<open>gracePeriod\<close> it was armed with.
\<close>

definition inboundHeartbeatTimeout :: "int \<Rightarrow> connection \<Rightarrow> connection" where
  "inboundHeartbeatTimeout gracePeriod st =
     (if readable (socket st) \<or> heartbeatForceReconnect (options st)
      then emit_error (HeartbeatTimeout gracePeriod) st
      else st)"

text \<open>
  The firing of the armed inbound timer; nothing fires when the timer is \<^verbatim>\<open>null\<close>.
\<close>

definition inboundHeartbeatTimerFires :: "connection \<Rightarrow> connection" where
  "inboundHeartbeatTimerFires st =
     (case inboundHeartbeatTimer st of
        None \<Rightarrow> st
      | Some gracePeriod \<Rightarrow> inboundHeartbeatTimeout gracePeriod st)"

text \<open>
  The listener of the connect event (\<^verbatim>\<open>'connect'\<close>, or \<^verbatim>\<open>'secureConnect'\<close> with TLS).
  \<^verbatim>\<open>self.queues\<close> and \<^verbatim>\<open>self.exchanges\<close> are not part of the model.
\<close>

definition connect_listener :: "connection \<Rightarrow> connection" where
  "connect_listener st =
     st\<lparr> channels := (case channels st of None \<Rightarrow> Some [0 \<mapsto> Self] | Some chs \<Rightarrow> Some chs),
         parser := Some (Parser None),
         readyEmitted := False \<rparr>"

text \<open>
  The listener of \<^verbatim>\<open>'ready'\<close>. \<open>channelsReconnect\<close> stands for the loop that calls
  \<^verbatim>\<open>reconnect()\<close> on every channel object but \<^verbatim>\<open>'0'\<close>, code of \<^verbatim>\<open>lib/channel.js\<close>;
  the variable \<^verbatim>\<open>backoffTime\<close> is out of its reach.
\<close>

definition ready_listener :: "(connection \<Rightarrow> connection) \<Rightarrow> connection \<Rightarrow> connection" where
  "ready_listener channelsReconnect st =
     (let st1 = st\<lparr>backoffTime := None\<rparr>;
          st2 = (if reconnect (implOptions st1)
                 then (channelsReconnect st1)\<lparr>backoffTime := backoffTime st1\<rparr>
                 else st1);
          st3 = st2\<lparr>readyEmitted := True\<rparr>
      in outboundHeartbeatTimerReset st3)"

definition emit_ready :: "(connection \<Rightarrow> connection) \<Rightarrow> connection \<Rightarrow> connection" where
  "emit_ready channelsReconnect st =
     ready_listener channelsReconnect (st\<lparr>emitted := emitted st @ [ReadyEvent]\<rparr>)"

text \<open>The listener of \<^verbatim>\<open>'end'\<close>.\<close>

definition end_listener :: "connection \<Rightarrow> connection" where
  "end_listener st =
     (if \<not> readyEmitted st then emit_error AuthenticationFailure st else st)"

text \<open>
  The listener of \<^verbatim>\<open>'data'\<close>. \<open>execute\<close> stands for \<^verbatim>\<open>self.parser.execute(data)\<close>, code
  of \<^verbatim>\<open>lib/parser.js\<close>, with the callbacks it makes into the connection: it gives the
  states it leaves and the exception it throws, if any.
\<close>

definition data_listener ::
  "(buffer \<Rightarrow> module_vars \<Rightarrow> connection \<Rightarrow> module_vars \<times> connection \<times> error option) \<Rightarrow>
   buffer \<Rightarrow> module_vars \<Rightarrow> connection \<Rightarrow> module_vars \<times> connection" where
  "data_listener execute data g st =
     (if parser st \<noteq> None then
        (case execute data g st of
           (g', st', Some exception) \<Rightarrow> (g', emit_error exception st')
         | (g', st', None) \<Rightarrow> (g', inboundHeartbeatTimerReset st'))
      else (g, inboundHeartbeatTimerReset st))"


section \<open>Frames\<close>

text \<open>
  Modelled from the spec: \<^verbatim>\<open>serializer.serializeInt(b, size, int)\<close> is code of
  \<^verbatim>\<open>lib/serializer.js\<close>, which is not among the sources. By the frame layout of the
  spec (\<^verbatim>\<open>[type:u8][channel:u16 big-endian][payloadLength:u32 big-endian]\<close>, "all multi-byte
  integers are big-endian") it stores the \<^verbatim>\<open>size\<close> low bytes of the integer at
  \<^verbatim>\<open>b.used\<close>, the most significant first.
\<close>

definition serializeInt :: "nat \<Rightarrow> int \<Rightarrow> buffer" where
  "serializeInt sz n = map (\<lambda>i. word_of_int (n div 256 ^ (sz - Suc i))) [0..<sz]"

text \<open>
  A frame as it leaves a scratch buffer \<open>b\<close> of \<open>bufferLength\<close> bytes, as
  \<^verbatim>\<open>_sendHeader\<close> and \<^verbatim>\<open>_sendMethod\<close> have it: the frame is stored byte after byte at
  \<^verbatim>\<open>b.used\<close>, a store beyond the end of the buffer is dropped while \<^verbatim>\<open>b.used\<close> still
  counts it (as for \<^verbatim>\<open>b[b.used++] = 206\<close>), and \<^verbatim>\<open>b.copy(s)\<close> into the fresh
  \<^verbatim>\<open>s = new Buffer(b.used)\<close> copies no further than the end of \<open>b\<close>: what is written has
  the length of the whole frame, its bytes up to \<open>bufferLength\<close>, and zeros after them.
\<close>

definition copyUsed :: "nat \<Rightarrow> buffer \<Rightarrow> buffer" where
  "copyUsed bufferLength frame =
     take bufferLength frame @ replicate (length frame - bufferLength) 0"

text \<open>
  \<^verbatim>\<open>Connection.prototype._sendMethod\<close>: the frame is built in \<^verbatim>\<open>this._sendBuffer\<close>, and
  its used part is copied out and written.
\<close>

definition methodFrame :: "runtime \<Rightarrow> nat \<Rightarrow> amqp_method \<Rightarrow> (string \<times> js_value) list \<Rightarrow> buffer" where
  "methodFrame rt channel m args =
     (let payload = serializeInt 2 (classIndex rt m) @ serializeInt 2 (methodIndex rt m)
                    @ serializeFields rt m args
      in [1] @ serializeInt 2 (int channel) @ serializeInt 4 (int (length payload))
         @ payload @ [206])"

definition sendMethod :: "runtime \<Rightarrow> nat \<Rightarrow> amqp_method \<Rightarrow> (string \<times> js_value) list \<Rightarrow> connection \<Rightarrow> connection" where
  "sendMethod rt channel m args st =
     outboundHeartbeatTimerReset
       (socket_write (copyUsed (sendBufferLength st) (methodFrame rt channel m args)) st)"










section \<open>Channel ids\<close>

text \<open>
  The loop \<^verbatim>\<open>while (true)\<close> of \<^verbatim>\<open>generateChannelId\<close>; \<open>counter\<close> is
  \<^verbatim>\<open>this.channelCounter\<close>. A loop that never meets a free id or the counter does not end.
\<close>

partial_function (option) scanChannelId ::
  "nat \<Rightarrow> (nat \<rightharpoonup> handler) \<Rightarrow> nat \<Rightarrow> nat \<Rightarrow> (error + nat) option" where
  "scanChannelId cmax chs counter channelId =
     (let channelId' = channelId mod cmax + 1
      in if chs channelId' = None then Some (Inr channelId')
         else if channelId' = counter then Some (Inl NoChannelsAvailable)
         else scanChannelId cmax chs counter channelId')"

text \<open>
  \<^verbatim>\<open>Connection.prototype.generateChannelId\<close>: the id and the connection with the new
  \<^verbatim>\<open>channelCounter\<close>, or the error thrown; reading \<^verbatim>\<open>this.channels[channelId]\<close> before
  the first connect event is a TypeError of the runtime. \<^verbatim>\<open>channelMax\<close> is never 0: it
  starts at 65535 and \<^verbatim>\<open>Connection.Tune\<close> only stores a truthy value.
\<close>

definition generateChannelId :: "module_vars \<Rightarrow> connection \<Rightarrow> (error + nat \<times> connection) option" where
  "generateChannelId g st =
     (case channels st of
        None \<Rightarrow> Some (Inl TypeError)
      | Some chs \<Rightarrow>
          (case scanChannelId (channelMax g) chs (channelCounter st) (channelCounter st) of
             None \<Rightarrow> None
           | Some (Inl e) \<Rightarrow> Some (Inl e)
           | Some (Inr channelId) \<Rightarrow> Some (Inr (channelId, st\<lparr>channelCounter := channelId\<rparr>))))"

text \<open>
  \<^verbatim>\<open>Connection.prototype.queue\<close>: the id is generated, an error thrown by
  \<^verbatim>\<open>generateChannelId\<close> is emitted and nothing is returned; else the new Queue \<open>q\<close> is
  stored at the id. The result is the connection and the id of the queue's channel. The
  constructor of Queue is code of \<^verbatim>\<open>lib/queue.js\<close>; what it sends has no part here.
  \<^verbatim>\<open>Connection.prototype.exchange\<close> takes its id in the same way.
\<close>

definition queue :: "module_vars \<Rightarrow> handler \<Rightarrow> connection \<Rightarrow> (connection \<times> nat option) option" where
  "queue g q st =
     (case generateChannelId g st of
        None \<Rightarrow> None
      | Some (Inl exception) \<Rightarrow> Some (emit_error exception st, None)
      | Some (Inr (channel, st1)) \<Rightarrow>
          Some (st1\<lparr>channels := map_option (\<lambda>chs. chs(channel \<mapsto> q)) (channels st1)\<rparr>, Some channel))"

text \<open>
  Queues opened one after the other, none closed in between: the ids returned, up to the
  first call that returns none.
\<close>

fun queues :: "module_vars \<Rightarrow> handler list \<Rightarrow> connection \<Rightarrow> (connection \<times> nat list \<times> bool) option" where
  "queues g [] st = Some (st, [], True)"
| "queues g (q # qs) st =
     (case queue g q st of
        None \<Rightarrow> None
      | Some (st1, None) \<Rightarrow> Some (st1, [], False)
      | Some (st1, Some channel) \<Rightarrow>
          (case queues g qs st1 of
             None \<Rightarrow> None
           | Some (st2, ids, ok) \<Rightarrow> Some (st2, channel # ids, ok)))"

text \<open>
  Modelled from the spec: the release of a channel id is code of \<^verbatim>\<open>lib/channel.js\<close>,
  which is not among the sources; by the spec "the channel slot is released by the handler
  itself when its state becomes closed", which removes the entry of \<^verbatim>\<open>channels\<close> at the id.
\<close>

definition releaseChannel :: "nat \<Rightarrow> connection \<Rightarrow> connection" where
  "releaseChannel channel st =
     st\<lparr>channels := map_option (\<lambda>chs. chs(channel := None)) (channels st)\<rparr>"

section \<open>Methods on channel 0\<close>

text \<open>
  A method as the parser hands it to \<^verbatim>\<open>_onMethod\<close>, with the arguments the connection
  reads: \<^verbatim>\<open>versionMajor\<close>, \<^verbatim>\<open>versionMinor\<close> and \<^verbatim>\<open>serverProperties\<close> of
  \<^verbatim>\<open>Connection.Start\<close>; \<^verbatim>\<open>channelMax\<close> and \<^verbatim>\<open>frameMax\<close> of \<^verbatim>\<open>Connection.Tune\<close>;
  \<^verbatim>\<open>replyCode\<close> and \<^verbatim>\<open>replyText\<close> of \<^verbatim>\<open>Connection.Close\<close>; \<^verbatim>\<open>reason\<close> of
  \<^verbatim>\<open>Connection.Blocked\<close>. The numbers are unsigned fields of the wire format.
\<close>

datatype inbound =
    ConnectionStart nat nat js_value
  | ConnectionTune nat nat
  | ConnectionOpenOk
  | ConnectionClose nat string
  | ConnectionCloseOk
  | ConnectionBlocked string
  | ConnectionUnblocked
  | OtherMethod string

text \<open>
  \<^verbatim>\<open>Connection.prototype._onMethod\<close>: the module variables and the connection it leaves,
  and the exception it throws, if any. \<open>onChannelMethod\<close> stands for the
  \<^verbatim>\<open>_onChannelMethod\<close> of the channel objects, which every one of them is taken to
  have, \<open>channelsReconnect\<close> for their
  \<^verbatim>\<open>reconnect\<close> (see \<open>ready_listener\<close>). In \<^verbatim>\<open>Connection.Tune\<close> with a truthy
  \<^verbatim>\<open>frameMax\<close>, \<^verbatim>\<open>this.parser.setMaxFrameBuffer\<close> on a parser that is \<^verbatim>\<open>null\<close> is a
  TypeError of the runtime, after the two assignments before it.
\<close>

definition onMethod ::
  "runtime \<Rightarrow> (connection \<Rightarrow> connection) \<Rightarrow> (nat \<Rightarrow> inbound \<Rightarrow> connection \<Rightarrow> connection) \<Rightarrow>
   nat \<Rightarrow> inbound \<Rightarrow> module_vars \<Rightarrow> connection \<Rightarrow> module_vars \<times> connection \<times> error option" where
  "onMethod rt channelsReconnect onChannelMethod channel m g st =
     (if channel > 0 then
        (case channels st of
           None \<Rightarrow> (g, st, Some TypeError)
         | Some chs \<Rightarrow>
             if chs channel = None then (g, st, None)
             else (g, onChannelMethod channel m st, None))
      else
        (case m of
           ConnectionStart versionMajor versionMinor serverProps \<Rightarrow>
             if versionMajor \<noteq> 0 \<and> versionMinor \<noteq> 9 then
               (g, emit_error BadServerVersion (socket_end st), None)
             else
               (let st1 = st\<lparr>serverProperties := serverProps\<rparr>
                in (g, sendMethod rt 0 connectionStartOk
                         [(''clientProperties'', clientProperties (options st1)),
                          (''mechanism'', JString (authMechanism (options st1))),
                          (''response'', saslResponse (options st1)),
                          (''locale'', JString ''en_US'')] st1, None))
         | ConnectionTune argsChannelMax argsFrameMax \<Rightarrow>
             (if argsFrameMax \<noteq> 0 \<and> parser st = None then
                (g\<lparr>maxFrameBuffer := argsFrameMax\<rparr>, st\<lparr>sendBufferLength := argsFrameMax\<rparr>,
                 Some TypeError)
              else
                (let g1 = (if argsFrameMax \<noteq> 0 then g\<lparr>maxFrameBuffer := argsFrameMax\<rparr> else g);
                     st1 = (if argsFrameMax \<noteq> 0
                            then st\<lparr>sendBufferLength := maxFrameBuffer g1,
                                    parser := Some (Parser (Some (maxFrameBuffer g1)))\<rparr>
                            else st);
                     g2 = (if argsChannelMax \<noteq> 0 then g1\<lparr>channelMax := argsChannelMax\<rparr> else g1);
                     st2 = sendMethod rt 0 connectionTuneOk
                             [(''channelMax'', JNumber (int (channelMax g2))),
                              (''frameMax'', JNumber (int (maxFrameBuffer g2))),
                              (''heartbeat'', JNumber (heartbeat (options st1)))] st1;
                     st3 = sendMethod rt 0 connectionOpen
                             [(''virtualHost'', JString (vhost (options st2))),
                              (''reserved1'', JString []),
                              (''reserved2'', JBool True)] st2
                 in (g2, st3, None)))
         | ConnectionOpenOk \<Rightarrow>
             (let st1 = (if readyCallback st
                         then st\<lparr>emitted := emitted st @ [ReadyCallbackCall], readyCallback := False\<rparr>
                         else st)
              in (g, emit_ready channelsReconnect st1, None))
         | ConnectionClose replyCode replyText \<Rightarrow>
             (g, socket_destroy (Some (ConnectionClosed (int replyCode) replyText)) st, None)
         | ConnectionCloseOk \<Rightarrow>
             (g, socket_destroy None (socket_end st), None)
         | ConnectionBlocked reason \<Rightarrow>
             (g, st\<lparr>blocked := True, blockedReason := Some reason,
                    emitted := emitted st @ [BlockedEvent]\<rparr>, None)
         | ConnectionUnblocked \<Rightarrow>
             (g, st\<lparr>blocked := False, blockedReason := None,
                    emitted := emitted st @ [UnblockedEvent]\<rparr>, None)
         | OtherMethod name \<Rightarrow> (g, st, Some (UncaughtMethod name))))"

section \<open>Sockets and reconnection\<close>

text \<open>
  \<^verbatim>\<open>socket.setNoDelay(noDelay)\<close> of the runtime enables the option unless its argument is
  falsy and not \<^verbatim>\<open>undefined\<close>.
\<close>

definition setNoDelay :: "js_value \<Rightarrow> socket_state \<Rightarrow> socket_state" where
  "setNoDelay v sock = sock\<lparr>tcpNoDelay := (if v = JUndefined then True else truthy v)\<rparr>"

text \<open>
  \<^verbatim>\<open>Connection.prototype._createSocket\<close>, where \<open>sock\<close> is the socket that
  \<^verbatim>\<open>net.connect\<close> or \<^verbatim>\<open>tls.connect\<close> returns for the chosen host: the choice of the host,
  the TLS options and the connection timeout are on that side of the call.
  \<open>createSocket_noDelay\<close> is the value of its variable \<^verbatim>\<open>noDelay\<close>.
\<close>

definition createSocket_noDelay :: "conn_options \<Rightarrow> js_value" where
  "createSocket_noDelay opts = js_or (noDelay opts) (JBool True)"

definition createSocket :: "socket_state \<Rightarrow> connection \<Rightarrow> connection" where
  "createSocket sock st = st\<lparr>socket := setNoDelay (createSocket_noDelay (options st)) sock\<rparr>"

text \<open>
  \<^verbatim>\<open>Connection.prototype._startHandshake\<close> writes \<^verbatim>\<open>"AMQP" + String.fromCharCode(0,0,9,1)\<close>.
\<close>

definition startHandshake :: "connection \<Rightarrow> connection" where
  "startHandshake st = socket_write [65, 77, 81, 80, 0, 0, 9, 1] st"

text \<open>
  \<^verbatim>\<open>Connection.prototype.connect\<close> on a connection that has its listeners, and
  \<^verbatim>\<open>Connection.prototype.reconnect\<close>, whose loop marks every channel closed (on the
  connection itself, at key 0, the mark is a property no code reads).
\<close>

definition connect :: "socket_state \<Rightarrow> connection \<Rightarrow> connection" where
  "connect sock st = startHandshake (createSocket sock st)"

definition reconnect_connection :: "socket_state \<Rightarrow> connection \<Rightarrow> connection" where
  "reconnect_connection sock st =
     (let st1 = st\<lparr>channels :=
                    map_option (\<lambda>chs channel. case chs channel of
                                  Some (Handler s) \<Rightarrow> Some (Handler ''closed'') | other \<Rightarrow> other)
                               (channels st)\<rparr>
      in connect sock (socket_end st1))"

text \<open>The callback of a reconnection timer that the error listener has set.\<close>

definition reconnectTimeout :: "socket_state \<Rightarrow> connection \<Rightarrow> connection" where
  "reconnectTimeout sock st =
     reconnect_connection sock (st\<lparr>connectionAttemptScheduled := False\<rparr>)"

text \<open>
  The constructor \<^verbatim>\<open>Connection\<close> with the options already merged, followed by the first
  \<^verbatim>\<open>connect()\<close>, which adds the listeners.
\<close>

definition Connection :: "module_vars \<Rightarrow> conn_options \<Rightarrow> impl_options \<Rightarrow> bool \<Rightarrow> socket_state \<Rightarrow> connection" where
  "Connection g opts impl hasReadyCallback sock =
     connect sock
       \<lparr> options = opts, implOptions = impl, socket = sock, parser = None, channels = None,
         channelCounter = 0, connectionAttemptScheduled = False, readyEmitted = False,
         readyCallback = hasReadyCallback, backoffTime = None, backoffAttached = True,
         inboundHeartbeatTimer = None, outboundHeartbeatTimer = None, reconnectTimers = [],
         emitted = [], serverProperties = JUndefined, sendBufferLength = maxFrameBuffer g,
         blocked = False, blockedReason = None \<rparr>"

text \<open>A socket as \<^verbatim>\<open>net.connect\<close> returns it, before any call on it.\<close>

definition fresh_socket :: socket_state where
  "fresh_socket =
     \<lparr> readable = True, writable = True, ended = False, destroyed = False,
       destroyedWith = None, tcpNoDelay = False, written = [] \<rparr>"

section \<open>The splits and the scan, as the specification words them\<close>


text \<open>
  The ids in the order of the scan: from \<^verbatim>\<open>channelCounter % channelMax + 1\<close> upward
  modulo \<^verbatim>\<open>channelMax\<close>, one round.
\<close>

definition scanOrder :: "nat \<Rightarrow> nat \<Rightarrow> nat list" where
  "scanOrder cmax counter = map (\<lambda>j. (counter + j) mod cmax + 1) [0..<cmax]"

section \<open>Instances for the examples\<close>


text \<open>
  A connection with the default options after its first connect event, on the module
  variables as the module sets them.
\<close>

definition example_connection :: connection where
  "example_connection =
     connect_listener
       (Connection initial_module_vars (defaultOptions JNull) defaultImplOptions False fresh_socket)"

text \<open>
  Fatal errors one after the other with no ready in between, each followed by the firing
  of the reconnection timer that the error listener has set.
\<close>

fun failures :: "error list \<Rightarrow> connection \<Rightarrow> connection" where
  "failures [] st = st"
| "failures (e # es) st = failures es (reconnectTimeout fresh_socket (emit_error e st))"


text \<open>
  The example connection with a heartbeat of 30 seconds and its inbound timer armed, on a
  transport that is readable or not, with \<^verbatim>\<open>heartbeatForceReconnect\<close> set or not.
\<close>

definition heartbeat_connection :: "bool \<Rightarrow> bool \<Rightarrow> connection" where
  "heartbeat_connection isReadable force =
     inboundHeartbeatTimerReset
       (example_connection
          \<lparr> options := (options example_connection)
                          \<lparr>heartbeat := 30, heartbeatForceReconnect := force\<rparr>,
            socket := (socket example_connection)\<lparr>readable := isReadable\<rparr> \<rparr>)"

text \<open>
  The example connection with \<^verbatim>\<open>reconnectBackoffTime\<close> 1000, the exponential strategy and
  the limit 10000.
\<close>

definition backoff_connection :: connection where
  "backoff_connection =
     example_connection
       \<lparr> implOptions := \<lparr> reconnect = True, reconnectBackoffStrategy = ''exponential'',
                          reconnectExponentialLimit = 10000, reconnectBackoffTime = 1000 \<rparr> \<rparr>"


text \<open>
  The example connection with channels 1, 2 and 3 taken by the queue \<open>q\<close>, its counter at
  the last id given.
\<close>

definition full_connection :: "handler \<Rightarrow> connection" where
  "full_connection q =
     example_connection
       \<lparr> channels := Some [0 \<mapsto> Self, 1 \<mapsto> q, 2 \<mapsto> q, 3 \<mapsto> q], channelCounter := 3 \<rparr>"

section \<open>Properties\<close>

subsection \<open>Auxiliary facts\<close>

lemmas example_defs =
  example_connection_def Connection_def connect_def createSocket_def startHandshake_def
  socket_write_def setNoDelay_def createSocket_noDelay_def js_or_def connect_listener_def
  defaultOptions_def defaultImplOptions_def initial_module_vars_def fresh_socket_def

lemma emitted_backoff: "emitted (backoff st) = emitted st"
  by (simp add: backoff_def socket_end_def Let_def split: option.splits)

lemma emitted_emit_error: "emitted (emit_error e st) = emitted st @ [ErrorEvent e]"
  by (simp add: emit_error_def Let_def emitted_backoff)

lemma readyEmitted_outboundHeartbeatTimerReset:
  "readyEmitted (outboundHeartbeatTimerReset st) = readyEmitted st"
  by (simp add: outboundHeartbeatTimerReset_def Let_def)

lemma backoffTime_outboundHeartbeatTimerReset:
  "backoffTime (outboundHeartbeatTimerReset st) = backoffTime st"
  by (simp add: outboundHeartbeatTimerReset_def Let_def)

lemma sendMethod_effect:
  "emitted (sendMethod rt channel m args st) = emitted st"
  "ended (socket (sendMethod rt channel m args st)) = ended (socket st)"
  "written (socket (sendMethod rt channel m args st)) =
     written (socket st) @ [copyUsed (sendBufferLength st) (methodFrame rt channel m args)]"
  by (simp_all add: sendMethod_def outboundHeartbeatTimerReset_def socket_write_def Let_def)




lemma backoff_scheduled:
  assumes "backoffAttached st" "\<not> connectionAttemptScheduled st" "reconnect (implOptions st)"
  shows "reconnectTimers (emit_error e st) = reconnectTimers st @ [t]
         \<and> backoffTime (emit_error e st) = Some t
     \<longleftrightarrow> t = (case backoffTime st of
               None \<Rightarrow> reconnectBackoffTime (implOptions st)
             | Some b \<Rightarrow>
                 if reconnectBackoffStrategy (implOptions st) = ''exponential''
                 then min (b * 2) (reconnectExponentialLimit (implOptions st)) else b)"
  using assms
  by (auto simp add: emit_error_def backoff_def socket_end_def Let_def min_def
      split: option.splits)

subsection \<open>The loop of the body frames\<close>

















subsection \<open>The scan for a channel id\<close>

lemma scanChannelId_skip:
  assumes "\<forall>j<n. chs ((c + j) mod cmax + 1) \<noteq> None \<and> (c + j) mod cmax + 1 \<noteq> counter"
  shows "scanChannelId cmax chs counter c =
         scanChannelId cmax chs counter (if n = 0 then c else (c + (n - 1)) mod cmax + 1)"
  using assms
proof (induction n)
  case 0
  then show ?case by simp
next
  case (Suc n)
  then have IH: "scanChannelId cmax chs counter c =
         scanChannelId cmax chs counter (if n = 0 then c else (c + (n - 1)) mod cmax + 1)"
    by simp
  have e: "(if n = 0 then c else (c + (n - 1)) mod cmax + 1) mod cmax + 1 = (c + n) mod cmax + 1"
    by (cases n) (simp_all add: mod_Suc_eq)
  have occ: "chs ((c + n) mod cmax + 1) \<noteq> None" "(c + n) mod cmax + 1 \<noteq> counter"
    using Suc.prems by auto
  have "scanChannelId cmax chs counter (if n = 0 then c else (c + (n - 1)) mod cmax + 1) =
        scanChannelId cmax chs counter ((c + n) mod cmax + 1)"
    by (subst scanChannelId.simps) (simp only: e Let_def occ if_False)
  with IH show ?case by simp
qed

lemma scanChannelId_at:
  assumes "\<forall>j<n. chs ((c + j) mod cmax + 1) \<noteq> None \<and> (c + j) mod cmax + 1 \<noteq> counter"
  shows "scanChannelId cmax chs counter c =
         (if chs ((c + n) mod cmax + 1) = None then Some (Inr ((c + n) mod cmax + 1))
          else if (c + n) mod cmax + 1 = counter then Some (Inl NoChannelsAvailable)
          else scanChannelId cmax chs counter ((c + n) mod cmax + 1))"
proof -
  have e: "(if n = 0 then c else (c + (n - 1)) mod cmax + 1) mod cmax + 1 = (c + n) mod cmax + 1"
    by (cases n) (simp_all add: mod_Suc_eq)
  show ?thesis
    by (subst scanChannelId_skip [OF assms], subst scanChannelId.simps)
       (simp add: e Let_def del: One_nat_def)
qed

lemma scan_meets_counter:
  fixes cmax c j :: nat
  assumes "0 < cmax" "1 \<le> c" "c \<le> cmax" "j < cmax"
  shows "(c + j) mod cmax + 1 = c \<longleftrightarrow> j = cmax - 1"
proof
  assume "j = cmax - 1"
  then have "c + j = (c - 1) + cmax" using assms by linarith
  then have "(c + j) mod cmax = (c - 1) mod cmax" by (metis mod_add_self2)
  then show "(c + j) mod cmax + 1 = c" using assms by simp
next
  assume a: "(c + j) mod cmax + 1 = c"
  show "j = cmax - 1"
  proof (cases "c + j < cmax")
    case True
    with a show ?thesis by simp
  next
    case False
    then have "(c + j) mod cmax = c + j - cmax"
      using assms by (simp add: mod_if)
    with a False assms show ?thesis by simp
  qed
qed

lemma scanOrder_nth: "j < cmax \<Longrightarrow> scanOrder cmax c ! j = (c + j) mod cmax + 1"
  by (simp add: scanOrder_def)

lemma length_scanOrder: "length (scanOrder cmax c) = cmax"
  by (simp add: scanOrder_def)

lemma scanChannelId_free:
  assumes "0 < cmax" "find (\<lambda>i. chs i = None) (scanOrder cmax c) = Some i"
  shows "scanChannelId cmax chs c c = Some (Inr i)"
proof -
  from assms(2) obtain k where k: "k < cmax" "scanOrder cmax c ! k = i" "chs i = None"
    "\<forall>j<k. chs (scanOrder cmax c ! j) \<noteq> None"
    by (auto simp: find_Some_iff length_scanOrder)
  have "\<forall>j<k. chs ((c + j) mod cmax + 1) \<noteq> None \<and> (c + j) mod cmax + 1 \<noteq> c"
  proof (intro allI impI conjI)
    fix j assume j: "j < k"
    with k show "chs ((c + j) mod cmax + 1) \<noteq> None" by (auto simp: scanOrder_nth)
    show "(c + j) mod cmax + 1 \<noteq> c"
    proof (cases "1 \<le> c \<and> c \<le> cmax")
      case True
      with scan_meets_counter [of cmax c j] j k assms(1) show ?thesis by auto
    next
      case False
      have "(c + j) mod cmax < cmax" using assms(1) by simp
      with False show ?thesis by auto
    qed
  qed
  from scanChannelId_at [OF this] k show ?thesis by (simp add: scanOrder_nth)
qed

lemma scanChannelId_full:
  assumes "0 < cmax" "1 \<le> c" "c \<le> cmax" "find (\<lambda>i. chs i = None) (scanOrder cmax c) = None"
  shows "scanChannelId cmax chs c c = Some (Inl NoChannelsAvailable)"
proof -
  have occ: "chs ((c + j) mod cmax + 1) \<noteq> None" if "j < cmax" for j
    using assms(4) that
    by (auto simp: find_None_iff scanOrder_def)
  have "\<forall>j<cmax - 1. chs ((c + j) mod cmax + 1) \<noteq> None \<and> (c + j) mod cmax + 1 \<noteq> c"
    using occ scan_meets_counter [OF assms(1-3)] by auto
  from scanChannelId_at [OF this] occ [of "cmax - 1"] scan_meets_counter [OF assms(1-3), of "cmax - 1"]
  show ?thesis using assms(1) by simp
qed

lemma set_scanOrder: "0 < cmax \<Longrightarrow> set (scanOrder cmax c) = {1..cmax}"
proof (intro equalityI subsetI)
  fix i assume c: "0 < cmax" and "i \<in> set (scanOrder cmax c)"
  then obtain j where j: "j < cmax" "i = (c + j) mod cmax + 1" by (auto simp: scanOrder_def)
  have "(c + j) mod cmax < cmax" using c by simp
  then have "(c + j) mod cmax + 1 \<le> cmax" by linarith
  with j show "i \<in> {1..cmax}" by simp
next
  fix i assume c: "0 < cmax" and "i \<in> {1..cmax}"
  then have i: "1 \<le> i" "i \<le> cmax" by auto
  define j where "j = (i - 1 + (cmax - c mod cmax)) mod cmax"
  have "j < cmax" using c by (simp add: j_def)
  have "(c + j) mod cmax = (c mod cmax + (i - 1 + (cmax - c mod cmax))) mod cmax"
    unfolding j_def by (simp add: mod_add_left_eq mod_add_right_eq)
  also have "c mod cmax + (i - 1 + (cmax - c mod cmax)) = (i - 1) + cmax"
  proof -
    have "c mod cmax < cmax" using c by simp
    then show ?thesis by linarith
  qed
  also have "((i - 1) + cmax) mod cmax = (i - 1) mod cmax" by (rule mod_add_self2)
  also have "(i - 1) mod cmax = i - 1" using i by (intro mod_less) linarith
  finally have "(c + j) mod cmax + 1 = i" using i by simp
  with \<open>j < cmax\<close> show "i \<in> set (scanOrder cmax c)"
    by (auto simp: scanOrder_def intro!: image_eqI [where x = j])
qed

lemma scanChannelId_result:
  assumes "scanChannelId cmax chs counter c = Some (Inr i)" "0 < cmax"
  shows "chs i = None \<and> 1 \<le> i \<and> i \<le> cmax"
proof -
  have "\<forall>i. y = Inr i \<longrightarrow> 0 < cmax \<longrightarrow> chs i = None \<and> 1 \<le> i \<and> i \<le> cmax"
    if "scanChannelId cmax chs counter c = Some y" for y
  proof (rule scanChannelId.raw_induct
      [where P = "\<lambda>cmax chs counter c y.
          \<forall>i. y = Inr i \<longrightarrow> 0 < cmax \<longrightarrow> chs i = None \<and> 1 \<le> i \<and> i \<le> cmax", OF _ that])
    fix f :: "nat \<Rightarrow> (nat \<rightharpoonup> handler) \<Rightarrow> nat \<Rightarrow> nat \<Rightarrow> (error + nat) option"
      and cmax chs counter c y
    assume IH: "\<And>cmax chs counter c y. f cmax chs counter c = Some y \<Longrightarrow>
        \<forall>i. y = Inr i \<longrightarrow> 0 < cmax \<longrightarrow> chs i = None \<and> 1 \<le> i \<and> i \<le> cmax"
    assume eq: "(let channelId' = c mod cmax + 1
      in if chs channelId' = None then Some (Inr channelId')
         else if channelId' = counter then Some (Inl NoChannelsAvailable)
         else f cmax chs counter channelId') = Some y"
    show "\<forall>i. y = Inr i \<longrightarrow> 0 < cmax \<longrightarrow> chs i = None \<and> 1 \<le> i \<and> i \<le> cmax"
    proof (intro allI impI)
      fix i assume y: "y = Inr i" and c: "0 < cmax"
      have "c mod cmax < cmax" using c by simp
      then have r: "c mod cmax + 1 \<le> cmax" by simp
      show "chs i = None \<and> 1 \<le> i \<and> i \<le> cmax"
      proof (cases "chs (c mod cmax + 1) = None")
        case True
        with eq y r show ?thesis by (auto simp: Let_def)
      next
        case False
        with eq y have "f cmax chs counter (c mod cmax + 1) = Some (Inr i)"
          by (auto simp: Let_def split: if_splits)
        from IH [OF this] c show ?thesis by simp
      qed
    qed
  qed
  with assms show ?thesis by simp
qed

lemma find_unique:
  assumes "i \<in> set xs" "P i" "\<forall>j \<in> set xs. P j \<longrightarrow> j = i"
  shows "find P xs = Some i"
  using assms
proof (induction xs)
  case Nil
  then show ?case by simp
next
  case (Cons x xs)
  show ?case
  proof (cases "P x")
    case True
    from Cons.prems(3) True have "x = i" by (meson list.set_intros(1))
    with True show ?thesis by (simp only: find.simps if_True)
  next
    case False
    from Cons.prems(1,2) False have 1: "i \<in> set xs" by (cases "i = x") simp_all
    from Cons.prems(3) have 2: "\<forall>j \<in> set xs. P j \<longrightarrow> j = i" by (meson list.set_intros(2))
    from Cons.IH [OF 1 Cons.prems(2) 2] False show ?thesis by (simp only: find.simps if_False)
  qed
qed

lemma generateChannelId_free:
  assumes "0 < channelMax g" "channels st = Some chs"
    "find (\<lambda>i. chs i = None) (scanOrder (channelMax g) (channelCounter st)) = Some i"
  shows "generateChannelId g st = Some (Inr (i, st\<lparr>channelCounter := i\<rparr>))"
  using scanChannelId_free [OF assms(1,3)] assms(2) by (simp add: generateChannelId_def)

lemma generateChannelId_full:
  assumes "0 < channelMax g" "channels st = Some chs"
    "1 \<le> channelCounter st" "channelCounter st \<le> channelMax g"
    "find (\<lambda>i. chs i = None) (scanOrder (channelMax g) (channelCounter st)) = None"
  shows "generateChannelId g st = Some (Inl NoChannelsAvailable)"
  using scanChannelId_full [OF assms(1,3,4,5)] assms(2) by (simp add: generateChannelId_def)

lemma queue_Some:
  assumes "queue g q st = Some (st1, Some channel)" "channels st = Some chs" "0 < channelMax g"
  shows "chs channel = None \<and> 1 \<le> channel \<and> channel \<le> channelMax g
         \<and> channels st1 = Some (chs(channel \<mapsto> q)) \<and> channelCounter st1 = channel"
proof -
  from assms(1,2) have "scanChannelId (channelMax g) chs (channelCounter st) (channelCounter st)
      = Some (Inr channel)"
    by (auto simp: queue_def generateChannelId_def split: option.splits sum.splits)
  from scanChannelId_result [OF this assms(3)] assms(1,2) show ?thesis
    by (auto simp: queue_def generateChannelId_def split: option.splits sum.splits)
qed

lemma queues_distinct:
  assumes "0 < channelMax g"
  shows "channels st = Some chs \<Longrightarrow> queues g qs st = Some (st', ids, ok) \<Longrightarrow>
         distinct ids \<and> (\<forall>i \<in> set ids. chs i = None \<and> 1 \<le> i \<and> i \<le> channelMax g)"
proof (induction qs arbitrary: st chs st' ids ok)
  case Nil
  then show ?case by simp
next
  case (Cons q qs)
  show ?case
  proof (cases "queue g q st")
    case None
    with Cons.prems show ?thesis by simp
  next
    case (Some r)
    obtain st1 res where r: "r = (st1, res)" by (cases r)
    show ?thesis
    proof (cases res)
      case None
      with Some r Cons.prems show ?thesis by simp
    next
      case (Some channel)
      with \<open>queue g q st = Some r\<close> r have q: "queue g q st = Some (st1, Some channel)" by simp
      from queue_Some [OF q Cons.prems(1) assms]
      have ch: "chs channel = None" "1 \<le> channel" "channel \<le> channelMax g"
        "channels st1 = Some (chs(channel \<mapsto> q))" by auto
      from Cons.prems(2) q obtain st2 ids' where
        rest: "queues g qs st1 = Some (st2, ids', ok)" "ids = channel # ids'"
        by (auto split: option.splits)
      from Cons.IH [OF ch(4) rest(1)]
      have "distinct ids'"
        "\<forall>i \<in> set ids'. (chs(channel \<mapsto> q)) i = None \<and> 1 \<le> i \<and> i \<le> channelMax g"
        by auto
      with ch rest(2) show ?thesis by (auto split: if_splits)
    qed
  qed
qed

lemma queues_fresh:
  assumes "0 < channelMax g"
  shows "channels st = Some chs \<Longrightarrow> (\<forall>i. chs i = None \<longleftrightarrow> k < i) \<Longrightarrow> channelCounter st = k \<Longrightarrow>
         k + length qs \<le> channelMax g \<Longrightarrow>
         \<exists>st'. queues g qs st = Some (st', [k + 1..<k + 1 + length qs], True)"
proof (induction qs arbitrary: st chs k)
  case Nil
  then show ?case by simp
next
  case (Cons q qs)
  from Cons.prems have k: "k < channelMax g" by simp
  then have m: "k mod channelMax g + 1 = k + 1" by simp
  have free: "chs (k + 1) = None" using Cons.prems(2) by simp
  have scan: "scanChannelId (channelMax g) chs k k = Some (Inr (k + 1))"
    by (subst scanChannelId.simps) (simp only: m Let_def free if_True simp_thms)
  define st1 where "st1 = st\<lparr>channelCounter := k + 1, channels := Some (chs(k + 1 \<mapsto> q))\<rparr>"
  have q: "queue g q st = Some (st1, Some (k + 1))"
    using scan Cons.prems(1,3) by (simp add: queue_def generateChannelId_def st1_def)
  have free1: "\<forall>i. (chs(k + 1 \<mapsto> q)) i = None \<longleftrightarrow> k + 1 < i"
  proof
    fix i
    show "(chs(k + 1 \<mapsto> q)) i = None \<longleftrightarrow> k + 1 < i"
      using Cons.prems(2) [rule_format, of i] by (cases "i = k + 1") auto
  qed
  have "\<exists>st'. queues g qs st1 = Some (st', [(k + 1) + 1..<(k + 1) + 1 + length qs], True)"
  proof (rule Cons.IH [OF _ free1])
    show "channels st1 = Some (chs(k + 1 \<mapsto> q))" by (simp add: st1_def)
    show "channelCounter st1 = k + 1" by (simp add: st1_def)
    show "k + 1 + length qs \<le> channelMax g" using Cons.prems(4) by simp
  qed
  then obtain st' where
    "queues g qs st1 = Some (st', [(k + 1) + 1..<(k + 1) + 1 + length qs], True)" ..
  with q have "queues g (q # qs) st =
      Some (st', (k + 1) # [(k + 1) + 1..<(k + 1) + 1 + length qs], True)"
    by simp
  moreover have "[k + 1..<k + 1 + length (q # qs)] =
      (k + 1) # [(k + 1) + 1..<(k + 1) + 1 + length qs]"
    by (subst upt_conv_Cons) simp_all
  ultimately show ?case by (intro exI [of _ st']) (simp only:)
qed

subsection \<open>Inbound heartbeat timer\<close>

text \<open>
  C1, as the code has it: the inbound timer is armed for twice \<^verbatim>\<open>options.heartbeat\<close>
  seconds when the heartbeat is not zero. When it fires with the transport readable or
  \<^verbatim>\<open>heartbeatForceReconnect\<close> true, an error naming the grace period is emitted; with the
  transport not readable and \<^verbatim>\<open>heartbeatForceReconnect\<close> false nothing happens. A data
  event re-arms the timer when there is no parser or the parser does not throw.
\<close>

theorem inboundHeartbeatTimer_fires:
  "inboundHeartbeatTimer (inboundHeartbeatTimerReset st) =
     (if heartbeat (options st) \<noteq> 0 then Some (2 * heartbeat (options st)) else None)
   \<and> (inboundHeartbeatTimer st = Some gracePeriod
        \<and> (readable (socket st) \<or> heartbeatForceReconnect (options st)) \<longrightarrow>
        emitted (inboundHeartbeatTimerFires st) =
          emitted st @ [ErrorEvent (HeartbeatTimeout gracePeriod)])
   \<and> (\<not> readable (socket st) \<and> \<not> heartbeatForceReconnect (options st) \<longrightarrow>
        inboundHeartbeatTimerFires st = st)
   \<and> (parser st = None \<longrightarrow>
        data_listener execute data g st = (g, inboundHeartbeatTimerReset st))
   \<and> (parser st \<noteq> None \<and> execute data g st = (g', st', None) \<longrightarrow>
        data_listener execute data g st = (g', inboundHeartbeatTimerReset st'))"
  by (auto simp add: inboundHeartbeatTimerReset_def Let_def inboundHeartbeatTimerFires_def
      inboundHeartbeatTimeout_def emitted_emit_error data_listener_def split: option.splits)

theorem inboundHeartbeatTimer_fires_witness:
  "inboundHeartbeatTimer (heartbeat_connection True False) = Some 60
   \<and> emitted (inboundHeartbeatTimerFires (heartbeat_connection True False)) =
       [ErrorEvent (HeartbeatTimeout 60)]
   \<and> emitted (inboundHeartbeatTimerFires (heartbeat_connection False True)) =
       [ErrorEvent (HeartbeatTimeout 60)]
   \<and> inboundHeartbeatTimerFires (heartbeat_connection False False) =
       heartbeat_connection False False
   \<and> data_listener (\<lambda>data g st. (g, st, None)) [] initial_module_vars
        (heartbeat_connection True False) =
       (initial_module_vars, heartbeat_connection True False)"
  using inboundHeartbeatTimer_fires [where st = "heartbeat_connection True False"
      and gracePeriod = 60]
    inboundHeartbeatTimer_fires [where st = "heartbeat_connection False True"
      and gracePeriod = 60]
    inboundHeartbeatTimer_fires [where st = "heartbeat_connection False False"]
    inboundHeartbeatTimer_fires [where st = "heartbeat_connection True False"
      and execute = "\<lambda>data g st. (g, st, None)" and data = "[]" and g = initial_module_vars
      and g' = initial_module_vars and st' = "heartbeat_connection True False"]
  by (simp add: heartbeat_connection_def inboundHeartbeatTimerReset_def example_defs Let_def)

text \<open>
  C1 as the claim states it fails: with the transport readable and
  \<^verbatim>\<open>heartbeatForceReconnect\<close> false the firing timer emits the error; with the transport
  not readable and \<^verbatim>\<open>heartbeatForceReconnect\<close> false it emits nothing; and a data event
  on which the parser throws leaves the timer cleared, not armed.
\<close>

theorem inboundHeartbeatTimer_counterexample:
  "readable (socket (heartbeat_connection True False))
   \<and> \<not> heartbeatForceReconnect (options (heartbeat_connection True False))
   \<and> emitted (inboundHeartbeatTimerFires (heartbeat_connection True False)) =
       [ErrorEvent (HeartbeatTimeout 60)]
   \<and> \<not> readable (socket (heartbeat_connection False False))
   \<and> inboundHeartbeatTimer (heartbeat_connection False False) = Some 60
   \<and> emitted (inboundHeartbeatTimerFires (heartbeat_connection False False)) = []
   \<and> inboundHeartbeatTimer
        (snd (data_listener (\<lambda>data g st. (g, st, Some (ParserException ''frame'')))
                [0] initial_module_vars (heartbeat_connection True False))) = None"
  by (simp add: heartbeat_connection_def inboundHeartbeatTimerReset_def example_defs Let_def
      inboundHeartbeatTimerFires_def inboundHeartbeatTimeout_def
      emit_error_def backoff_def socket_end_def data_listener_def)

subsection \<open>Version check of Connection.Start\<close>

text \<open>
  C2 at the inputs where the code departs from it: \<^verbatim>\<open>Connection.Start\<close> with version 0-8,
  and with version 1-9, on channel 0 is answered with \<^verbatim>\<open>Connection.StartOk\<close>; no error is
  emitted and the transport is not ended. Version 1-0 ends the transport and emits the
  error.
\<close>

theorem connectionStart_version_0_8_accepted:
  "onMethod rt channelsReconnect onChannelMethod 0 (ConnectionStart 0 8 serverProps) g st =
     (g, sendMethod rt 0 connectionStartOk
           [(''clientProperties'', clientProperties (options st)),
            (''mechanism'', JString (authMechanism (options st))),
            (''response'', saslResponse (options st)),
            (''locale'', JString ''en_US'')] (st\<lparr>serverProperties := serverProps\<rparr>), None)
   \<and> emitted (fst (snd (onMethod rt channelsReconnect onChannelMethod 0
         (ConnectionStart 0 8 serverProps) g st))) = emitted st
   \<and> ended (socket (fst (snd (onMethod rt channelsReconnect onChannelMethod 0
         (ConnectionStart 0 8 serverProps) g st)))) = ended (socket st)
   \<and> emitted (fst (snd (onMethod rt channelsReconnect onChannelMethod 0
         (ConnectionStart 1 9 serverProps) g st))) = emitted st
   \<and> ended (socket (fst (snd (onMethod rt channelsReconnect onChannelMethod 0
         (ConnectionStart 1 9 serverProps) g st)))) = ended (socket st)
   \<and> onMethod rt channelsReconnect onChannelMethod 0 (ConnectionStart 1 0 serverProps) g st =
       (g, emit_error BadServerVersion (socket_end st), None)"
  by (simp add: onMethod_def Let_def sendMethod_effect)

subsection \<open>Body frames\<close>








subsection \<open>Channel ids\<close>


lemma example_channels:
  "channels example_connection = Some [0 \<mapsto> Self]"
  "channelCounter example_connection = 0"
  "channels (full_connection q) = Some [0 \<mapsto> Self, 1 \<mapsto> q, 2 \<mapsto> q, 3 \<mapsto> q]"
  "channelCounter (full_connection q) = 3"
  by (simp_all add: full_connection_def example_defs)

text \<open>
  C4: with \<^verbatim>\<open>channelMax\<close> positive, the scan visits the ids 1 to \<^verbatim>\<open>channelMax\<close>, from
  \<^verbatim>\<open>channelCounter % channelMax + 1\<close> on; \<^verbatim>\<open>generateChannelId\<close> returns the first id on
  the way that has no entry in \<^verbatim>\<open>channels\<close> and sets \<^verbatim>\<open>channelCounter\<close> to it, and
  throws when no id has none, with the counter among the ids. Queues opened one after the
  other get distinct ids between 1 and \<^verbatim>\<open>channelMax\<close> that were free before; on a
  connection with no channel yet, up to \<^verbatim>\<open>channelMax\<close> of them get the ids 1, 2, ... in
  order. With \<^verbatim>\<open>channelMax\<close> 3 and the ids 1, 2, 3 taken the call throws, and once
  channel 2 is released it returns 2.
\<close>

theorem generateChannelId_allocation:
  assumes "0 < channelMax g" and "channels st = Some chs"
  shows "set (scanOrder (channelMax g) (channelCounter st)) = {1..channelMax g}
   \<and> (find (\<lambda>i. chs i = None) (scanOrder (channelMax g) (channelCounter st)) = Some i \<longrightarrow>
        generateChannelId g st = Some (Inr (i, st\<lparr>channelCounter := i\<rparr>)))
   \<and> (find (\<lambda>i. chs i = None) (scanOrder (channelMax g) (channelCounter st)) = None
        \<and> 1 \<le> channelCounter st \<and> channelCounter st \<le> channelMax g \<longrightarrow>
        generateChannelId g st = Some (Inl NoChannelsAvailable))
   \<and> (queues g qs st = Some (st', ids, ok) \<longrightarrow>
        distinct ids \<and> (\<forall>i \<in> set ids. chs i = None \<and> 1 \<le> i \<and> i \<le> channelMax g))
   \<and> (chs = [0 \<mapsto> Self] \<and> channelCounter st = 0 \<and> length qs \<le> channelMax g \<longrightarrow>
        (\<exists>st'. queues g qs st = Some (st', [1..<1 + length qs], True)))
   \<and> (channelMax g = 3 \<and> chs 1 \<noteq> None \<and> chs 2 \<noteq> None \<and> chs 3 \<noteq> None
        \<and> channelCounter st \<in> {1, 2, 3} \<longrightarrow>
        generateChannelId g st = Some (Inl NoChannelsAvailable)
        \<and> generateChannelId g (releaseChannel 2 st) =
            Some (Inr (2, (releaseChannel 2 st)\<lparr>channelCounter := 2\<rparr>)))"
proof -
  note order = set_scanOrder [OF assms(1), of "channelCounter st"]
  have fresh: "\<exists>st'. queues g qs st = Some (st', [1..<1 + length qs], True)"
    if "chs = [0 \<mapsto> Self]" "channelCounter st = 0" "length qs \<le> channelMax g"
  proof -
    have "\<forall>i. chs i = None \<longleftrightarrow> 0 < i" using that(1) by simp
    from queues_fresh [OF assms(1,2) this that(2)] that(3) show ?thesis by simp
  qed
  have three: "generateChannelId g st = Some (Inl NoChannelsAvailable)
        \<and> generateChannelId g (releaseChannel 2 st) =
            Some (Inr (2, (releaseChannel 2 st)\<lparr>channelCounter := 2\<rparr>))"
    if t: "channelMax g = 3" "chs 1 \<noteq> None" "chs 2 \<noteq> None" "chs 3 \<noteq> None"
      "channelCounter st \<in> {1, 2, 3}"
  proof
    have all: "i = 1 \<or> i = 2 \<or> i = 3" if "i \<in> {1..channelMax g}" for i
      using that t(1) by auto
    have "\<forall>i \<in> set (scanOrder (channelMax g) (channelCounter st)). chs i \<noteq> None"
      unfolding order using all t(2-4) by blast
    then have "find (\<lambda>i. chs i = None) (scanOrder (channelMax g) (channelCounter st)) = None"
      by (simp add: find_None_iff)
    moreover have "1 \<le> channelCounter st" "channelCounter st \<le> channelMax g"
      using t(1,5) by auto
    ultimately show "generateChannelId g st = Some (Inl NoChannelsAvailable)"
      using generateChannelId_full [OF assms] by simp
    have ch: "channels (releaseChannel 2 st) = Some (chs(2 := None))"
      "channelCounter (releaseChannel 2 st) = channelCounter st"
      using assms(2) by (simp_all add: releaseChannel_def)
    have "find (\<lambda>i. (chs(2 := None)) i = None) (scanOrder (channelMax g) (channelCounter st))
      = Some 2"
    proof (rule find_unique)
      show "2 \<in> set (scanOrder (channelMax g) (channelCounter st))"
        unfolding order using t(1) by simp
      show "(chs(2 := None)) 2 = None" by simp
      show "\<forall>j\<in>set (scanOrder (channelMax g) (channelCounter st)).
          (chs(2 := None)) j = None \<longrightarrow> j = 2"
        unfolding order using all t(2-4) by (metis fun_upd_apply)
    qed
    then show "generateChannelId g (releaseChannel 2 st) =
            Some (Inr (2, (releaseChannel 2 st)\<lparr>channelCounter := 2\<rparr>))"
      using generateChannelId_free [OF _ ch(1), of g 2] assms(1) ch(2) by simp
  qed
  show ?thesis
    using order generateChannelId_free [OF assms] generateChannelId_full [OF assms]
      queues_distinct [OF assms] fresh three
    by (intro conjI impI) (simp_all only:, blast+)
qed

theorem generateChannelId_allocation_witness:
  "generateChannelId (initial_module_vars\<lparr>channelMax := 3\<rparr>) example_connection =
     Some (Inr (1, example_connection\<lparr>channelCounter := 1\<rparr>))
   \<and> (\<exists>st'. queues (initial_module_vars\<lparr>channelMax := 3\<rparr>)
          [Handler ''opening'', Handler ''opening'', Handler ''opening''] example_connection =
        Some (st', [1, 2, 3], True))
   \<and> generateChannelId (initial_module_vars\<lparr>channelMax := 3\<rparr>)
        (full_connection (Handler ''open'')) = Some (Inl NoChannelsAvailable)
   \<and> generateChannelId (initial_module_vars\<lparr>channelMax := 3\<rparr>)
        (releaseChannel 2 (full_connection (Handler ''open''))) =
       Some (Inr (2, (releaseChannel 2 (full_connection (Handler ''open'')))\<lparr>channelCounter := 2\<rparr>))"
proof -
  let ?g = "initial_module_vars\<lparr>channelMax := 3\<rparr>"
  let ?qs = "[Handler ''opening'', Handler ''opening'', Handler ''opening'']"
  have g: "0 < channelMax ?g" "channelMax ?g = 3" by simp_all
  have order: "scanOrder 3 0 = [1, 2, 3]"
    by code_simp
  have first: "find (\<lambda>i. [0 \<mapsto> Self] i = None)
      (scanOrder (channelMax ?g) (channelCounter example_connection)) = Some 1"
    by (simp add: example_channels order)
  have upt: "[1..<1 + length ?qs] = [1, 2, 3]"
    by (simp add: numeral_eq_Suc)
  note fresh = generateChannelId_allocation [OF g(1) example_channels(1),
      where i = 1 and qs = ?qs]
  note full = generateChannelId_allocation [OF g(1) example_channels(3) [of "Handler ''open''"]]
  have 1: "generateChannelId ?g example_connection =
     Some (Inr (1, example_connection\<lparr>channelCounter := 1\<rparr>))"
    using fresh first by blast
  have 2: "\<exists>st'. queues ?g ?qs example_connection = Some (st', [1, 2, 3], True)"
    using fresh example_channels(2) upt by (simp del: upt_Suc)
  have 3: "generateChannelId ?g (full_connection (Handler ''open'')) =
        Some (Inl NoChannelsAvailable)
      \<and> generateChannelId ?g (releaseChannel 2 (full_connection (Handler ''open''))) =
       Some (Inr (2, (releaseChannel 2 (full_connection (Handler ''open'')))\<lparr>channelCounter := 2\<rparr>))"
    using full g(2) by (simp add: example_channels)
  from 1 2 3 show ?thesis by blast
qed

subsection \<open>Reconnection backoff\<close>

text \<open>
  C5: an error emitted while no reconnection is scheduled, with \<^verbatim>\<open>reconnect\<close> on, sets a
  reconnection timer: after \<^verbatim>\<open>reconnectBackoffTime\<close> ms when it is the first since the
  last ready (\<^verbatim>\<open>backoffTime\<close> is \<^verbatim>\<open>null\<close>); after twice the last delay, capped at
  \<^verbatim>\<open>reconnectExponentialLimit\<close>, under the exponential strategy; after the last delay
  again under the linear strategy. The ready listener resets \<^verbatim>\<open>backoffTime\<close> to
  \<^verbatim>\<open>null\<close>. With 1000 ms, the exponential strategy and the limit 10000, six failures in a
  row set timers of 1000, 2000, 4000, 8000, 10000 and 10000 ms, and the first failure after
  a ready one of 1000 ms again.
\<close>

theorem reconnect_backoff:
  "(backoffAttached st \<and> \<not> connectionAttemptScheduled st \<and> reconnect (implOptions st)
      \<and> backoffTime st = None \<longrightarrow>
      reconnectTimers (emit_error e st) =
        reconnectTimers st @ [reconnectBackoffTime (implOptions st)]
      \<and> backoffTime (emit_error e st) = Some (reconnectBackoffTime (implOptions st)))
   \<and> (backoffAttached st \<and> \<not> connectionAttemptScheduled st \<and> reconnect (implOptions st)
      \<and> backoffTime st = Some b
      \<and> reconnectBackoffStrategy (implOptions st) = ''exponential'' \<longrightarrow>
      reconnectTimers (emit_error e st) =
        reconnectTimers st @ [min (b * 2) (reconnectExponentialLimit (implOptions st))]
      \<and> backoffTime (emit_error e st) =
          Some (min (b * 2) (reconnectExponentialLimit (implOptions st))))
   \<and> (backoffAttached st \<and> \<not> connectionAttemptScheduled st \<and> reconnect (implOptions st)
      \<and> backoffTime st = Some b
      \<and> reconnectBackoffStrategy (implOptions st) = ''linear'' \<longrightarrow>
      reconnectTimers (emit_error e st) = reconnectTimers st @ [b]
      \<and> backoffTime (emit_error e st) = Some b)
   \<and> backoffTime (ready_listener channelsReconnect st) = None
   \<and> backoffTime (emit_ready channelsReconnect st) = None
   \<and> reconnectTimers (failures [e1, e2, e3, e4, e5, e6] backoff_connection) =
       [1000, 2000, 4000, 8000, 10000, 10000]
   \<and> reconnectTimers (failures [e7]
        (emit_ready id (failures [e1, e2, e3, e4, e5, e6] backoff_connection))) =
       [1000, 2000, 4000, 8000, 10000, 10000, 1000]"
proof -
  have step: "reconnectTimers (emit_error e st) = reconnectTimers st @ [t]
         \<and> backoffTime (emit_error e st) = Some t"
    if "backoffAttached st" "\<not> connectionAttemptScheduled st" "reconnect (implOptions st)"
      and "t = (case backoffTime st of
               None \<Rightarrow> reconnectBackoffTime (implOptions st)
             | Some b \<Rightarrow>
                 if reconnectBackoffStrategy (implOptions st) = ''exponential''
                 then min (b * 2) (reconnectExponentialLimit (implOptions st)) else b)"
    for st t
    using that backoff_scheduled by blast
  have ready: "backoffTime (ready_listener channelsReconnect st) = None" for st
    by (simp add: ready_listener_def Let_def backoffTime_outboundHeartbeatTimerReset)
  have six: "reconnectTimers (failures [e1, e2, e3, e4, e5, e6] backoff_connection) =
       [1000, 2000, 4000, 8000, 10000, 10000]"
    by (simp add: backoff_connection_def example_defs reconnectTimeout_def
        reconnect_connection_def emit_error_def backoff_def socket_end_def Let_def)
  have seven: "reconnectTimers (failures [e7]
        (emit_ready id (failures [e1, e2, e3, e4, e5, e6] backoff_connection))) =
       [1000, 2000, 4000, 8000, 10000, 10000, 1000]"
    by (simp add: backoff_connection_def example_defs reconnectTimeout_def
        reconnect_connection_def emit_error_def backoff_def socket_end_def Let_def
        emit_ready_def ready_listener_def outboundHeartbeatTimerReset_def)
  show ?thesis
    using step [of st] ready six seven by (simp add: emit_ready_def)
qed

theorem reconnect_backoff_witness:
  "reconnectTimers (emit_error BadServerVersion backoff_connection) = [1000]
   \<and> reconnectTimers (emit_error BadServerVersion (backoff_connection\<lparr>backoffTime := Some 8000\<rparr>))
       = [10000]
   \<and> reconnectTimers (emit_error BadServerVersion
         (backoff_connection
            \<lparr>backoffTime := Some 8000,
             implOptions := (implOptions backoff_connection)\<lparr>reconnectBackoffStrategy := ''linear''\<rparr>\<rparr>))
       = [8000]"
  using reconnect_backoff [where st = backoff_connection and e = BadServerVersion]
    reconnect_backoff [where st = "backoff_connection\<lparr>backoffTime := Some 8000\<rparr>"
      and e = BadServerVersion and b = 8000]
    reconnect_backoff [where st = "backoff_connection
            \<lparr>backoffTime := Some 8000,
             implOptions := (implOptions backoff_connection)\<lparr>reconnectBackoffStrategy := ''linear''\<rparr>\<rparr>"
      and e = BadServerVersion and b = 8000]
  by (simp add: backoff_connection_def example_defs)

subsection \<open>SASL response\<close>



subsection \<open>Body encoding\<close>














subsection \<open>Premature end of the transport\<close>

text \<open>
  C8: an end event while \<^verbatim>\<open>readyEmitted\<close> is false emits the error that hints at an
  authentication failure; an end event while it is true changes nothing. The connect
  listener sets \<^verbatim>\<open>readyEmitted\<close> false, the ready listener sets it true.
\<close>

theorem end_listener_readyEmitted:
  "(\<not> readyEmitted st \<longrightarrow>
      emitted (end_listener st) = emitted st @ [ErrorEvent AuthenticationFailure])
   \<and> (readyEmitted st \<longrightarrow> end_listener st = st)
   \<and> readyEmitted (connect_listener st) = False
   \<and> readyEmitted (ready_listener channelsReconnect st) = True"
  by (simp add: end_listener_def emitted_emit_error connect_listener_def ready_listener_def
      Let_def readyEmitted_outboundHeartbeatTimerReset)

theorem end_listener_readyEmitted_witness:
  "\<not> readyEmitted example_connection
   \<and> emitted (end_listener example_connection) = [ErrorEvent AuthenticationFailure]
   \<and> readyEmitted (ready_listener id example_connection)
   \<and> end_listener (ready_listener id example_connection) = ready_listener id example_connection
   \<and> \<not> readyEmitted (connect_listener (ready_listener id example_connection))"
  using end_listener_readyEmitted [of example_connection id]
    end_listener_readyEmitted [of "ready_listener id example_connection" id]
  by (simp add: example_defs)

subsection \<open>The module variables are shared\<close>








subsection \<open>TCP no-delay\<close>

text \<open>
  C10: \<^verbatim>\<open>_createSocket\<close> enables TCP no-delay whatever \<^verbatim>\<open>options.noDelay\<close> is:
  \<^verbatim>\<open>this.options.noDelay || true\<close> is truthy for every value of the option, and is
  \<^verbatim>\<open>true\<close> for \<^verbatim>\<open>false\<close>, for \<^verbatim>\<open>true\<close> and for an absent option.
\<close>

theorem createSocket_noDelay_enabled:
  "tcpNoDelay (socket (createSocket sock st))
   \<and> tcpNoDelay (socket (Connection g opts impl cb sock))
   \<and> truthy (createSocket_noDelay opts)
   \<and> createSocket_noDelay (opts\<lparr>noDelay := JBool b\<rparr>) = JBool True
   \<and> createSocket_noDelay (opts\<lparr>noDelay := JUndefined\<rparr>) = JBool True"
  by (auto simp add: createSocket_def createSocket_noDelay_def setNoDelay_def js_or_def
      Connection_def connect_def startHandshake_def socket_write_def)

theorem createSocket_noDelay_enabled_witness:
  "tcpNoDelay (socket (createSocket fresh_socket
      (example_connection\<lparr>options := (options example_connection)\<lparr>noDelay := JBool False\<rparr>\<rparr>)))
   \<and> createSocket_noDelay ((options example_connection)\<lparr>noDelay := JBool False\<rparr>) = JBool True"
  using createSocket_noDelay_enabled [where sock = fresh_socket
      and st = "example_connection\<lparr>options := (options example_connection)\<lparr>noDelay := JBool False\<rparr>\<rparr>"
      and opts = "options example_connection" and b = False]
  by simp

end
